theory Spec2Isabelle
  imports Complex_Main
begin

section \<open>Tensors\<close>

text \<open>
  A tensor is its shape and its elements in row-major order, as the tensor library stores
  it. Elements are real numbers: the 32-bit floating-point arithmetic of the library is
  idealised as exact arithmetic (no rounding, no overflow, no NaN). A division by zero,
  which the library answers with an infinity or a NaN, has the value 0 here; the divisors
  of \<open>normalize_l2\<close> and of the instance normalization are positive.
\<close>

record tensor =
  shape :: "nat list"
  elems :: "real list"

definition well_formed :: "tensor \<Rightarrow> bool" where
  "well_formed t \<longleftrightarrow> length (elems t) = prod_list (shape t)"

text \<open>The exceptions of the interpreter and of the tensor library that the code can meet.\<close>

datatype error =
  UnboundLocalError | AttributeError | IndexError | ValueError | InvalidArgumentError

definition bindE :: "error + 'a \<Rightarrow> ('a \<Rightarrow> error + 'b) \<Rightarrow> error + 'b" where
  "bindE m k = (case m of Inl e \<Rightarrow> Inl e | Inr a \<Rightarrow> k a)"

subsection \<open>Indexing\<close>

text \<open>Row-major offset of a multi-index, and the multi-index of an offset.\<close>

fun ravel :: "nat list \<Rightarrow> nat list \<Rightarrow> nat" where
  "ravel (d # ds) (i # is) = i * prod_list ds + ravel ds is"
| "ravel _ _ = 0"

fun unravel :: "nat list \<Rightarrow> nat \<Rightarrow> nat list" where
  "unravel [] n = []"
| "unravel (d # ds) n = (n div prod_list ds) # unravel ds (n mod prod_list ds)"

definition get :: "tensor \<Rightarrow> nat list \<Rightarrow> real" where
  "get t idx = elems t ! ravel (shape t) idx"

text \<open>A multi-index is valid for a shape when it has the shape's rank and is in range.\<close>

fun valid_index :: "nat list \<Rightarrow> nat list \<Rightarrow> bool" where
  "valid_index [] [] = True"
| "valid_index (d # ds) (i # is) = (i < d \<and> valid_index ds is)"
| "valid_index _ _ = False"

subsection \<open>Element-wise operations with broadcasting\<close>

text \<open>
  Shapes are aligned at their last dimension; two dimensions are compatible when they are
  equal or one of them is 1. \<open>broadcast_rev\<close> works on the reversed shapes.
\<close>

fun broadcast_rev :: "nat list \<Rightarrow> nat list \<Rightarrow> nat list option" where
  "broadcast_rev [] ys = Some ys"
| "broadcast_rev xs [] = Some xs"
| "broadcast_rev (x # xs) (y # ys) =
     (if x = y \<or> y = 1 then map_option ((#) x) (broadcast_rev xs ys)
      else if x = 1 then map_option ((#) y) (broadcast_rev xs ys)
      else None)"

definition broadcast_shapes :: "nat list \<Rightarrow> nat list \<Rightarrow> nat list option" where
  "broadcast_shapes a b = map_option rev (broadcast_rev (rev a) (rev b))"

text \<open>The index into an operand of shape \<open>s\<close> that a result index reads.\<close>

definition bidx :: "nat list \<Rightarrow> nat list \<Rightarrow> nat list" where
  "bidx s idx =
     map2 (\<lambda>d i. if d = 1 then 0 else i) s (drop (length idx - length s) idx)"

definition binop :: "(real \<Rightarrow> real \<Rightarrow> real) \<Rightarrow> tensor \<Rightarrow> tensor \<Rightarrow> error + tensor" where
  "binop f a b =
     (case broadcast_shapes (shape a) (shape b) of
        None \<Rightarrow> Inl InvalidArgumentError
      | Some s \<Rightarrow>
          Inr \<lparr>shape = s,
               elems = map (\<lambda>n. f (get a (bidx (shape a) (unravel s n)))
                                 (get b (bidx (shape b) (unravel s n))))
                           [0..<prod_list s]\<rparr>)"

text \<open>An operation between a tensor and a scalar (a Python float or a rank-0 tensor).\<close>

definition scalar_op :: "(real \<Rightarrow> real \<Rightarrow> real) \<Rightarrow> tensor \<Rightarrow> real \<Rightarrow> tensor" where
  "scalar_op f t c = t\<lparr>elems := map (\<lambda>x. f x c) (elems t)\<rparr>"

text \<open>\<open>v**2\<close> and \<open>tf.math.reduce_sum(v)\<close> over all axes.\<close>

definition square :: "tensor \<Rightarrow> tensor" where
  "square v = v\<lparr>elems := map (\<lambda>x. x ^ 2) (elems v)\<rparr>"

definition reduce_sum :: "tensor \<Rightarrow> real" where
  "reduce_sum v = sum_list (elems v)"

subsection \<open>Reshaping\<close>

text \<open>
  \<open>tf.reshape(t, dims)\<close>: the elements stay in place. At most one dimension may be
  \<open>-1\<close>; it is inferred from the number of elements, which the other dimensions must
  divide. Next to a dimension 0 the inference is refused.
\<close>

definition reshape :: "tensor \<Rightarrow> int list \<Rightarrow> error + tensor" where
  "reshape t dims =
     (let known = filter (\<lambda>d. d \<noteq> - 1) dims;
          p = prod_list known;
          n = int (length (elems t))
      in if \<not> list_all (\<lambda>d. 0 \<le> d) known then Inl InvalidArgumentError
         else if length known = length dims then
           (if p = n then Inr \<lparr>shape = map nat dims, elems = elems t\<rparr>
            else Inl InvalidArgumentError)
         else if length known + 1 = length dims \<and> p \<noteq> 0 \<and> n mod p = 0 then
           Inr \<lparr>shape = map (\<lambda>d. if d = - 1 then nat (n div p) else nat d) dims,
                elems = elems t\<rparr>
         else Inl InvalidArgumentError)"

subsection \<open>Matrix product\<close>

text \<open>
  \<open>tf.matmul(a, b, transpose_a, transpose_b)\<close> on two matrices, and on two rank-3
  tensors as a batch of matrix products. Other ranks do not occur in this code and are
  reported as errors.
\<close>

definition mat_at :: "nat \<Rightarrow> real list \<Rightarrow> bool \<Rightarrow> nat \<Rightarrow> nat \<Rightarrow> real" where
  "mat_at cols xs tr i j = (if tr then xs ! (j * cols + i) else xs ! (i * cols + j))"

text \<open>
  The dimensions \<open>(m, k, n)\<close> of the product of an \<open>ra \<times> ca\<close> and an \<open>rb \<times> cb\<close>
  matrix, each possibly transposed; the inner dimensions must agree.
\<close>

definition matmul_dims ::
  "nat \<Rightarrow> nat \<Rightarrow> nat \<Rightarrow> nat \<Rightarrow> bool \<Rightarrow> bool \<Rightarrow> error + nat \<times> nat \<times> nat" where
  "matmul_dims ra ca rb cb ta tb =
     (let m = (if ta then ca else ra);
          k = (if ta then ra else ca);
          k' = (if tb then cb else rb);
          n = (if tb then rb else cb)
      in if k \<noteq> k' then Inl InvalidArgumentError else Inr (m, k, n))"

definition matmul_elems ::
  "nat \<Rightarrow> real list \<Rightarrow> nat \<Rightarrow> real list \<Rightarrow> bool \<Rightarrow> bool \<Rightarrow> nat \<Rightarrow> nat \<Rightarrow> nat \<Rightarrow> real list" where
  "matmul_elems ca xs cb ys ta tb m k n =
     concat (map (\<lambda>i. map (\<lambda>j.
         (\<Sum>l\<leftarrow>[0..<k]. mat_at ca xs ta i l * mat_at cb ys tb l j))
       [0..<n]) [0..<m])"

text \<open>The \<open>i\<close>-th matrix of a rank-3 tensor; a batch of one matrix is shared by all.\<close>

definition batch :: "tensor \<Rightarrow> nat \<Rightarrow> real list" where
  "batch t i =
     (let sz = prod_list (tl (shape t)); i' = (if hd (shape t) = 1 then 0 else i)
      in take sz (drop (i' * sz) (elems t)))"

definition matmul :: "tensor \<Rightarrow> tensor \<Rightarrow> bool \<Rightarrow> bool \<Rightarrow> error + tensor" where
  "matmul a b transpose_a transpose_b =
     (case (shape a, shape b) of
        ([ra, ca], [rb, cb]) \<Rightarrow>
          bindE (matmul_dims ra ca rb cb transpose_a transpose_b) (\<lambda>(m, k, n).
            Inr \<lparr>shape = [m, n],
                 elems = matmul_elems ca (elems a) cb (elems b) transpose_a transpose_b m k n\<rparr>)
      | ([ba, ra, ca], [bb, rb, cb]) \<Rightarrow>
          if ba \<noteq> bb \<and> ba \<noteq> 1 \<and> bb \<noteq> 1 then Inl InvalidArgumentError
          else
            bindE (matmul_dims ra ca rb cb transpose_a transpose_b) (\<lambda>(m, k, n).
              let nb = (if ba = 1 then bb else ba) in
              Inr \<lparr>shape = [nb, m, n],
                   elems = concat (map (\<lambda>i.
                     matmul_elems ca (batch a i) cb (batch b i) transpose_a transpose_b m k n)
                     [0..<nb])\<rparr>)
      | _ \<Rightarrow> Inl InvalidArgumentError)"

section \<open>SpectralNormalization\<close>

subsection \<open>The wrapped convolution layer\<close>

text \<open>
  The wrapped \<open>Conv2D\<close> object belongs to the layer library. The model keeps what the
  code reads and writes: the constructor's arguments, whether the layer is built, its
  variables in creation order (\<open>kernel\<close>, then \<open>bias\<close> when the layer has one, then the
  \<open>kernel_orig\<close> that the wrapper adds), and the attribute \<open>kernel\<close>, which is the
  variable \<open>kernel\<close> until the wrapper assigns a plain tensor to it.
\<close>

datatype stride = Stride int | Stride2 int int

datatype kernel_attr = KernelVariable | KernelTensor tensor

record Conv2D =
  filters :: int
  kernel_size :: "nat \<times> nat"
  strides :: stride
  padding :: string
  kernel_initializer_gain :: real
  use_bias :: bool
  built :: bool
  kernel_variable :: "tensor option"
  bias :: "tensor option"
  kernel_orig :: "tensor option"
  kernel :: kernel_attr

text \<open>
  What the layer library computes and this repository does not define is a parameter of
  the model: the initializers (the values drawn for a shape), the convolution itself, the
  pooling operators and the softmax. An initializer is a function of the shape, so two
  variables of one shape start with the same values; no property below rests on that.
\<close>

record framework =
  orthogonal :: "real \<Rightarrow> nat list \<Rightarrow> real list"
  glorot_uniform :: "nat list \<Rightarrow> real list"
  random_normal :: "nat list \<Rightarrow> real list"
  convolution :: "stride \<Rightarrow> string \<Rightarrow> tensor \<Rightarrow> tensor \<Rightarrow> error + tensor"
  max_pool :: "tensor \<Rightarrow> error + tensor"
  average_pool :: "tensor \<Rightarrow> error + tensor"
  softmax :: "nat \<Rightarrow> tensor \<Rightarrow> tensor"

text \<open>The constructor \<open>Conv2D(filters, kernel_size, strides, padding, ...)\<close>.\<close>

definition Conv2D_new ::
  "int \<Rightarrow> nat \<times> nat \<Rightarrow> stride \<Rightarrow> string \<Rightarrow> real \<Rightarrow> bool \<Rightarrow> Conv2D" where
  "Conv2D_new n ks st pad gain ub =
     \<lparr>filters = n, kernel_size = ks, strides = st, padding = pad,
      kernel_initializer_gain = gain, use_bias = ub, built = False,
      kernel_variable = None, bias = None, kernel_orig = None, kernel = KernelVariable\<rparr>"

text \<open>The initializers \<open>zeros\<close> and \<open>ones\<close>.\<close>

definition zeros :: "nat list \<Rightarrow> real list" where
  "zeros s = replicate (prod_list s) 0"

definition ones :: "nat list \<Rightarrow> real list" where
  "ones s = replicate (prod_list s) 1"

text \<open>\<open>add_weight(shape, initializer)\<close>: a variable of that shape; a negative dimension is refused.\<close>

definition add_weight :: "int list \<Rightarrow> (nat list \<Rightarrow> real list) \<Rightarrow> error + tensor" where
  "add_weight dims initializer =
     (if list_all (\<lambda>d. 0 \<le> d) dims
      then Inr \<lparr>shape = map nat dims, elems = initializer (map nat dims)\<rparr>
      else Inl ValueError)"

text \<open>The value of the attribute \<open>layer.kernel\<close>.\<close>

definition kernel_value :: "Conv2D \<Rightarrow> error + tensor" where
  "kernel_value l =
     (case kernel l of
        KernelTensor t \<Rightarrow> Inr t
      | KernelVariable \<Rightarrow>
          (case kernel_variable l of None \<Rightarrow> Inl AttributeError | Some t \<Rightarrow> Inr t))"

text \<open>
  \<open>layer(x)\<close>: the first call builds the layer for the input's channel count (the kernel
  from the orthogonal initializer, the bias zero); every call convolves the input with the
  current value of \<open>kernel\<close> and adds the bias.
\<close>

definition Conv2D_build :: "framework \<Rightarrow> Conv2D \<Rightarrow> tensor \<Rightarrow> error + Conv2D" where
  "Conv2D_build fw l x =
     (if built l then Inr l
      else if length (shape x) \<noteq> 4 then Inl ValueError
      else
        bindE (add_weight [int (fst (kernel_size l)), int (snd (kernel_size l)),
                           int (last (shape x)), filters l]
                 (orthogonal fw (kernel_initializer_gain l))) (\<lambda>k.
        bindE (if use_bias l then map_sum id Some (add_weight [filters l] zeros)
               else Inr None) (\<lambda>b.
        Inr (l\<lparr>built := True, kernel_variable := Some k, bias := b\<rparr>))))"

definition Conv2D_call :: "framework \<Rightarrow> Conv2D \<Rightarrow> tensor \<Rightarrow> error + tensor \<times> Conv2D" where
  "Conv2D_call fw l x =
     bindE (Conv2D_build fw l x) (\<lambda>l'.
     bindE (kernel_value l') (\<lambda>k.
     bindE (convolution fw (strides l') (padding l') x k) (\<lambda>y.
     bindE (case bias l' of None \<Rightarrow> Inr y | Some b \<Rightarrow> binop (+) y b) (\<lambda>out.
     Inr (out, l')))))"

text \<open>\<open>layer.weights\<close>, \<open>layer.get_weights()\<close> and \<open>layer.set_weights(ws)\<close>.\<close>

definition weights :: "Conv2D \<Rightarrow> tensor list" where
  "weights l =
     (case kernel_variable l of None \<Rightarrow> [] | Some k \<Rightarrow> [k]) @
     (case bias l of None \<Rightarrow> [] | Some b \<Rightarrow> [b]) @
     (case kernel_orig l of None \<Rightarrow> [] | Some k \<Rightarrow> [k])"

fun assign_all :: "tensor option list \<Rightarrow> tensor list \<Rightarrow> error + tensor option list" where
  "assign_all [] [] = Inr []"
| "assign_all (None # vs) ws = bindE (assign_all vs ws) (\<lambda>r. Inr (None # r))"
| "assign_all (Some v # vs) (w # ws) =
     (if shape v = shape w then bindE (assign_all vs ws) (\<lambda>r. Inr (Some w # r))
      else Inl ValueError)"
| "assign_all _ _ = Inl ValueError"

definition set_weights :: "Conv2D \<Rightarrow> tensor list \<Rightarrow> error + Conv2D" where
  "set_weights l ws =
     bindE (assign_all [kernel_variable l, bias l, kernel_orig l] ws) (\<lambda>r.
       Inr (l\<lparr>kernel_variable := r ! 0, bias := r ! 1, kernel_orig := r ! 2\<rparr>))"

subsection \<open>The wrapper\<close>

record SpectralNormalization =
  layer :: Conv2D
  n_power_iterations :: int
  init :: bool
  u :: tensor

text \<open>
  The constructor creates \<open>u\<close> at once, with shape \<open>[layer.filters, 1]\<close> and values from
  the random normal initializer.
\<close>

definition SpectralNormalization_new ::
  "framework \<Rightarrow> Conv2D \<Rightarrow> int \<Rightarrow> error + SpectralNormalization" where
  "SpectralNormalization_new fw l n =
     bindE (add_weight [filters l, 1] (random_normal fw)) (\<lambda>u0.
       Inr \<lparr>layer = l, n_power_iterations = n, init = False, u = u0\<rparr>)"

definition epsilon_default :: real where
  "epsilon_default = 1 / 10 ^ 12"

definition normalize_l2 :: "tensor \<Rightarrow> real \<Rightarrow> tensor" where
  "normalize_l2 v epsilon = scalar_op (/) v (sqrt (reduce_sum (square v)) + epsilon)"

text \<open>
  One pass of the loop body of \<open>power_iteration\<close>. It reads \<open>self.u\<close> and \<open>W\<close> only:
  the local \<open>u\<close> of an earlier pass is not read.
\<close>

definition power_iteration_body ::
  "SpectralNormalization \<Rightarrow> tensor \<Rightarrow> error + tensor \<times> tensor \<times> tensor" where
  "power_iteration_body self W =
     bindE (matmul W (u self) True False) (\<lambda>Wtu.
       let v = normalize_l2 Wtu epsilon_default in
     bindE (matmul W v False False) (\<lambda>Wv.
       let u' = normalize_l2 Wv epsilon_default in
     bindE (matmul u' W True False) (\<lambda>utW.
     bindE (matmul utW v False False) (\<lambda>spectral_norm.
       Inr (v, u', spectral_norm)))))"

text \<open>
  The loop \<open>for _ in range(n)\<close>. The locals \<open>v\<close>, \<open>u\<close>, \<open>spectral_norm\<close> are unbound
  (\<open>None\<close>) until the first pass; \<open>range\<close> of a number below 1 is empty.
\<close>

fun power_iteration_loop ::
  "SpectralNormalization \<Rightarrow> tensor \<Rightarrow> nat \<Rightarrow> (tensor \<times> tensor \<times> tensor) option
     \<Rightarrow> error + (tensor \<times> tensor \<times> tensor) option" where
  "power_iteration_loop self W 0 locals = Inr locals"
| "power_iteration_loop self W (Suc n) locals =
     bindE (power_iteration_body self W) (\<lambda>l. power_iteration_loop self W n (Some l))"

definition power_iteration :: "SpectralNormalization \<Rightarrow> tensor \<Rightarrow> error + tensor \<times> tensor" where
  "power_iteration self W =
     bindE (power_iteration_loop self W (nat (n_power_iterations self)) None) (\<lambda>locals.
       case locals of
         None \<Rightarrow> Inl UnboundLocalError
       | Some (v, u', spectral_norm) \<Rightarrow> Inr (spectral_norm, u'))"

text \<open>
  \<open>self.u.assign(u)\<close>: a variable takes a value of its own shape only.
\<close>

definition assign_u :: "SpectralNormalization \<Rightarrow> tensor \<Rightarrow> error + SpectralNormalization" where
  "assign_u self u' =
     (if shape u' = shape (u self) then Inr (self\<lparr>u := u'\<rparr>) else Inl ValueError)"

definition normalize_weights ::
  "SpectralNormalization \<Rightarrow> bool \<Rightarrow> error + tensor \<times> SpectralNormalization" where
  "normalize_weights self training =
     bindE (case weights (layer self) of
              [] \<Rightarrow> Inl IndexError
            | w # _ \<Rightarrow> (if shape w = [] then Inl IndexError else Inr (last (shape w))))
       (\<lambda>n_filters.
     bindE (case kernel_orig (layer self) of None \<Rightarrow> Inl AttributeError | Some k \<Rightarrow> Inr k)
       (\<lambda>W_orig.
     bindE (reshape W_orig [int n_filters, - 1]) (\<lambda>W_res.
     bindE (power_iteration self W_res) (\<lambda>(spectral_norm, u').
     bindE (binop (/) W_orig spectral_norm) (\<lambda>W_sn.
     bindE (if training then assign_u self u' else Inr self) (\<lambda>self'.
       Inr (W_sn, self')))))))"

text \<open>
  The first forward pass: the wrapped layer is built by calling it, \<open>kernel_orig\<close> is
  added with the kernel's shape, and the weights are set so that \<open>kernel_orig\<close> holds the
  kernel's values.
\<close>

definition initialize ::
  "framework \<Rightarrow> SpectralNormalization \<Rightarrow> tensor \<Rightarrow> error + SpectralNormalization" where
  "initialize fw self x =
     bindE (Conv2D_call fw (layer self) x) (\<lambda>(_, l1).
     bindE (kernel_value l1) (\<lambda>k.
     bindE (add_weight (map int (shape k)) (glorot_uniform fw)) (\<lambda>ko.
       let l2 = l1\<lparr>kernel_orig := Some ko\<rparr>; ws = weights l2 in
     bindE (if length ws = 2 then set_weights l2 [ws ! 0, ws ! 0]
            else if length ws < 2 then Inl IndexError
            else set_weights l2 [ws ! 0, ws ! 1, ws ! 0]) (\<lambda>l3.
       Inr (self\<lparr>layer := l3, init := True\<rparr>)))))"

definition SpectralNormalization_call ::
  "framework \<Rightarrow> SpectralNormalization \<Rightarrow> tensor \<Rightarrow> bool
     \<Rightarrow> error + tensor \<times> SpectralNormalization" where
  "SpectralNormalization_call fw self x training =
     bindE (if \<not> init self then initialize fw self x else Inr self) (\<lambda>self1.
     bindE (normalize_weights self1 training) (\<lambda>(W_sn, self2).
       let l = (layer self2)\<lparr>kernel := KernelTensor W_sn\<rparr> in
     bindE (Conv2D_call fw l x) (\<lambda>(output, l').
       Inr (output, self2\<lparr>layer := l'\<rparr>))))"

section \<open>SelfAttentionModule\<close>

record SelfAttentionModule =
  key_size :: int
  gamma :: tensor
  f_layer :: SpectralNormalization
  g_layer :: SpectralNormalization
  h_layer :: SpectralNormalization
  out_layer :: SpectralNormalization

text \<open>A 1-by-1 convolution without bias, wrapped, as the constructor makes four times.\<close>

definition projection :: "framework \<Rightarrow> real \<Rightarrow> int \<Rightarrow> error + SpectralNormalization" where
  "projection fw init_gain n =
     SpectralNormalization_new fw
       (Conv2D_new n (1, 1) (Stride2 1 1) ''valid'' init_gain False) 1"

definition SelfAttentionModule_new ::
  "framework \<Rightarrow> real \<Rightarrow> int \<Rightarrow> int option \<Rightarrow> error + SelfAttentionModule" where
  "SelfAttentionModule_new fw init_gain output_channels key_size_arg =
     (let ks = (case key_size_arg of None \<Rightarrow> output_channels div 8 | Some k \<Rightarrow> k) in
      bindE (add_weight [] zeros) (\<lambda>gamma0.
      bindE (projection fw init_gain ks) (\<lambda>f0.
      bindE (projection fw init_gain ks) (\<lambda>g0.
      bindE (projection fw init_gain (output_channels div 2)) (\<lambda>h0.
      bindE (projection fw init_gain output_channels) (\<lambda>out0.
        Inr \<lparr>key_size = ks, gamma = gamma0, f_layer = f0, g_layer = g0,
             h_layer = h0, out_layer = out0\<rparr>))))))"



section \<open>ResidualBlock\<close>

record ResidualBlock =
  first_block :: bool
  last_block :: bool
  process_identity :: SpectralNormalization
  conv_1 :: SpectralNormalization
  conv_2 :: SpectralNormalization


definition ResidualBlock_new ::
  "framework \<Rightarrow> real \<Rightarrow> stride \<Rightarrow> int \<Rightarrow> bool \<Rightarrow> bool \<Rightarrow> error + ResidualBlock" where
  "ResidualBlock_new fw init_gain stride_arg output_channels is_first is_last =
     bindE (SpectralNormalization_new fw
              (Conv2D_new output_channels (1, 1) stride_arg ''valid'' init_gain True) 1)
       (\<lambda>p.
     bindE (SpectralNormalization_new fw
              (Conv2D_new output_channels (3, 3) stride_arg ''same'' init_gain True) 1)
       (\<lambda>c1.
     bindE (SpectralNormalization_new fw
              (Conv2D_new output_channels (3, 3) (Stride2 1 1) ''same'' init_gain True) 1)
       (\<lambda>c2.
       Inr \<lparr>first_block = is_first, last_block = is_last, process_identity = p,
            conv_1 = c1, conv_2 = c2\<rparr>)))"



section \<open>InstanceNormalization\<close>

record InstanceNormalization =
  affine :: bool
  eps :: real
  gamma_affine :: "tensor option"
  beta_affine :: "tensor option"

definition InstanceNormalization_new :: "int \<Rightarrow> bool \<Rightarrow> error + InstanceNormalization" where
  "InstanceNormalization_new n_filters aff =
     (if aff then
        bindE (add_weight [1, n_filters] ones) (\<lambda>g.
        bindE (add_weight [1, n_filters] zeros) (\<lambda>b.
          Inr \<lparr>affine = aff, eps = 1 / 10 ^ 12, gamma_affine = Some g, beta_affine = Some b\<rparr>))
      else Inr \<lparr>affine = aff, eps = 1 / 10 ^ 12, gamma_affine = None, beta_affine = None\<rparr>)"

text \<open>
  \<open>tf.math.reduce_mean(x, axis=(1, 2))\<close>: the mean over the second and third axes, which
  are removed from the shape.
\<close>

definition reduce_mean_12 :: "tensor \<Rightarrow> error + tensor" where
  "reduce_mean_12 x =
     (case shape x of
        d0 # d1 # d2 # ds \<Rightarrow>
          Inr \<lparr>shape = d0 # ds,
               elems = concat (map (\<lambda>a. map (\<lambda>r.
                   (\<Sum>i\<leftarrow>[0..<d1]. \<Sum>j\<leftarrow>[0..<d2]. get x (a # i # j # unravel ds r))
                     / real (d1 * d2))
                 [0..<prod_list ds]) [0..<d0])\<rparr>
      | _ \<Rightarrow> Inl InvalidArgumentError)"

text \<open>\<open>tf.expand_dims(t, axis)\<close> for an axis that is not negative.\<close>

definition expand_dims :: "tensor \<Rightarrow> nat \<Rightarrow> error + tensor" where
  "expand_dims t axis =
     (if axis \<le> length (shape t)
      then Inr (t\<lparr>shape := take axis (shape t) @ [1] @ drop axis (shape t)\<rparr>)
      else Inl InvalidArgumentError)"

text \<open>
  \<open>tf.math.reduce_std(x, axis=(1, 2))\<close>: the square root of the mean of the squared
  deviations from the mean (the population standard deviation).
\<close>

definition reduce_std_12 :: "tensor \<Rightarrow> error + tensor" where
  "reduce_std_12 x =
     bindE (reduce_mean_12 x) (\<lambda>m0.
     bindE (expand_dims m0 1) (\<lambda>m1.
     bindE (expand_dims m1 2) (\<lambda>means.
     bindE (binop (-) x means) (\<lambda>dev.
     bindE (reduce_mean_12 (square dev)) (\<lambda>var.
       Inr (var\<lparr>elems := map sqrt (elems var)\<rparr>))))))"

definition InstanceNormalization_call ::
  "InstanceNormalization \<Rightarrow> tensor \<Rightarrow> error + tensor" where
  "InstanceNormalization_call self x =
     bindE (reduce_mean_12 x) (\<lambda>m0.
     bindE (expand_dims m0 1) (\<lambda>m1.
     bindE (expand_dims m1 2) (\<lambda>mean.
     bindE (reduce_std_12 x) (\<lambda>s0.
     bindE (expand_dims s0 1) (\<lambda>s1.
     bindE (expand_dims s1 2) (\<lambda>std.
     bindE (binop (-) x mean) (\<lambda>centred.
     bindE (binop (/) centred (scalar_op (+) std (eps self))) (\<lambda>x1.
       if affine self then
         bindE (case gamma_affine self of None \<Rightarrow> Inl AttributeError | Some g \<Rightarrow> Inr g)
           (\<lambda>g.
         bindE (binop times x1 g) (\<lambda>x2.
         bindE (case beta_affine self of None \<Rightarrow> Inl AttributeError | Some b \<Rightarrow> Inr b)
           (\<lambda>b.
           binop (+) x2 b)))
       else Inr x1))))))))"

section \<open>Instance normalization, index by index\<close>

text \<open>
  What the specification asks of \<open>InstanceNormalization\<close>, written for one element: the
  mean and the standard deviation of a (batch element, channel) pair over the two spatial
  axes, and the element normalized by them.
\<close>

definition spatial_mean :: "tensor \<Rightarrow> nat \<Rightarrow> nat \<Rightarrow> real" where
  "spatial_mean x b c =
     (\<Sum>i\<leftarrow>[0..<shape x ! 1]. \<Sum>j\<leftarrow>[0..<shape x ! 2]. get x [b, i, j, c])
       / real (shape x ! 1 * shape x ! 2)"

definition spatial_std :: "tensor \<Rightarrow> nat \<Rightarrow> nat \<Rightarrow> real" where
  "spatial_std x b c =
     sqrt ((\<Sum>i\<leftarrow>[0..<shape x ! 1]. \<Sum>j\<leftarrow>[0..<shape x ! 2].
              (get x [b, i, j, c] - spatial_mean x b c)\<^sup>2)
           / real (shape x ! 1 * shape x ! 2))"

definition normalized :: "tensor \<Rightarrow> nat \<Rightarrow> nat \<Rightarrow> nat \<Rightarrow> nat \<Rightarrow> real" where
  "normalized x b i j c =
     (get x [b, i, j, c] - spatial_mean x b c) / (spatial_std x b c + 1 / 10 ^ 12)"

section \<open>Concrete instances\<close>

text \<open>
  A wrapped 1-by-1 convolution from 2 to 2 channels whose raw kernel, read as a matrix, is
  \<open>[[3, 4], [0, 15]]\<close>, with the stored vector \<open>u = (1, 0)\<close>.
\<close>

definition example_W :: tensor where
  "example_W = \<lparr>shape = [2, 2], elems = [3, 4, 0, 15]\<rparr>"

definition example_u :: tensor where
  "example_u = \<lparr>shape = [2, 1], elems = [1, 0]\<rparr>"

definition example_kernel :: tensor where
  "example_kernel = \<lparr>shape = [1, 1, 2, 2], elems = [3, 4, 0, 15]\<rparr>"

definition example_conv :: Conv2D where
  "example_conv =
     (Conv2D_new 2 (1, 1) (Stride2 1 1) ''valid'' 1 False)
       \<lparr>built := True, kernel_variable := Some example_kernel,
        kernel_orig := Some example_kernel\<rparr>"

definition example_sn :: SpectralNormalization where
  "example_sn = \<lparr>layer = example_conv, n_power_iterations = 20, init = True, u = example_u\<rparr>"

text \<open>The vectors that one pass of the power iteration computes from them.\<close>

definition example_v :: tensor where
  "example_v =
     \<lparr>shape = [2, 1],
      elems = [3 / (5 + epsilon_default), 4 / (5 + epsilon_default)]\<rparr>"

definition example_u' :: tensor where
  "example_u' =
     \<lparr>shape = [2, 1],
      elems = [25 / (5 + epsilon_default) / (65 / (5 + epsilon_default) + epsilon_default),
               60 / (5 + epsilon_default) / (65 / (5 + epsilon_default) + epsilon_default)]\<rparr>"

definition example_sigma :: tensor where
  "example_sigma =
     \<lparr>shape = [1, 1],
      elems = [4225 / ((5 + epsilon_default) * (65 + epsilon_default * (5 + epsilon_default)))]\<rparr>"

definition example_e2 :: tensor where
  "example_e2 = \<lparr>shape = [2, 1], elems = [0, 1]\<rparr>"

definition sigma_value :: real where
  "sigma_value = 4225 / ((5 + epsilon_default) * (65 + epsilon_default * (5 + epsilon_default)))"

definition example_W_sn :: tensor where
  "example_W_sn =
     \<lparr>shape = [1, 1, 2, 2],
      elems = [3 / sigma_value, 4 / sigma_value, 0, 15 / sigma_value]\<rparr>"

text \<open>
  An instance of the layer library, for concrete runs: a convolution with stride 1 and
  zero padding, 2-by-2 pooling, the softmax over the last axis, and initializers that
  return fixed values.
\<close>

definition example_convolution :: "stride \<Rightarrow> string \<Rightarrow> tensor \<Rightarrow> tensor \<Rightarrow> error + tensor" where
  "example_convolution st pad x k =
     (case (shape x, shape k) of
        ([b, h, w, c], [kh, kw, ci, co]) \<Rightarrow>
          if c \<noteq> ci \<or> st \<noteq> Stride2 1 1 then Inl InvalidArgumentError
          else
            let same = (pad = ''same'');
                oh = (if same then h else h + 1 - kh);
                ow = (if same then w else w + 1 - kw);
                ph = (if same then (kh - 1) div 2 else 0);
                pw = (if same then (kw - 1) div 2 else 0)
            in Inr \<lparr>shape = [b, oh, ow, co],
                 elems = map (\<lambda>n. case unravel [b, oh, ow, co] n of
                     [p, i, j, q] \<Rightarrow>
                       (\<Sum>di\<leftarrow>[0..<kh]. \<Sum>dj\<leftarrow>[0..<kw]. \<Sum>r\<leftarrow>[0..<c].
                          (if ph \<le> i + di \<and> i + di < h + ph \<and> pw \<le> j + dj \<and> j + dj < w + pw
                           then get x [p, i + di - ph, j + dj - pw, r] else 0)
                          * get k [di, dj, r, q])
                   | _ \<Rightarrow> 0)
                   [0..<b * oh * ow * co]\<rparr>
      | _ \<Rightarrow> Inl InvalidArgumentError)"

definition pool_2x2 :: "(real \<Rightarrow> real \<Rightarrow> real \<Rightarrow> real \<Rightarrow> real) \<Rightarrow> tensor \<Rightarrow> error + tensor" where
  "pool_2x2 f t =
     (case shape t of
        [b, h, w, c] \<Rightarrow>
          Inr \<lparr>shape = [b, h div 2, w div 2, c],
               elems = map (\<lambda>n. case unravel [b, h div 2, w div 2, c] n of
                   [p, i, j, q] \<Rightarrow>
                     f (get t [p, 2 * i, 2 * j, q]) (get t [p, 2 * i, 2 * j + 1, q])
                       (get t [p, 2 * i + 1, 2 * j, q]) (get t [p, 2 * i + 1, 2 * j + 1, q])
                 | _ \<Rightarrow> 0)
                 [0..<b * (h div 2) * (w div 2) * c]\<rparr>
      | _ \<Rightarrow> Inl InvalidArgumentError)"

definition softmax_last :: "nat \<Rightarrow> tensor \<Rightarrow> tensor" where
  "softmax_last axis t =
     t\<lparr>elems := map (\<lambda>n.
         exp (elems t ! n) /
           (\<Sum>k\<leftarrow>[0..<last (shape t)].
              exp (elems t ! (n div last (shape t) * last (shape t) + k))))
       [0..<length (elems t)]\<rparr>"

definition example_framework :: framework where
  "example_framework =
     \<lparr>orthogonal = (\<lambda>gain s. gain # replicate (prod_list s - 1) 0),
      glorot_uniform = zeros,
      random_normal = ones,
      convolution = example_convolution,
      max_pool = pool_2x2 (\<lambda>a b c d. max (max a b) (max c d)),
      average_pool = pool_2x2 (\<lambda>a b c d. (a + b + c + d) / 4),
      softmax = softmax_last\<rparr>"

definition example_x :: tensor where
  "example_x = \<lparr>shape = [1, 1, 1, 2], elems = [1, 1]\<rparr>"

text \<open>A wrapper as its constructor returns it, before any forward pass.\<close>

definition fresh_sn :: SpectralNormalization where
  "fresh_sn =
     \<lparr>layer = Conv2D_new 2 (1, 1) (Stride2 1 1) ''valid'' 1 False,
      n_power_iterations = 1, init = False, u = \<lparr>shape = [2, 1], elems = [1, 1]\<rparr>\<rparr>"



text \<open>A residual block for one channel, and an image of one channel.\<close>

definition example_block :: "bool \<Rightarrow> ResidualBlock" where
  "example_block is_last =
     \<lparr>first_block = False, last_block = is_last,
      process_identity = \<lparr>layer = Conv2D_new 1 (1, 1) (Stride2 1 1) ''valid'' 1 True,
         n_power_iterations = 1, init = False, u = \<lparr>shape = [1, 1], elems = [1]\<rparr>\<rparr>,
      conv_1 = \<lparr>layer = Conv2D_new 1 (3, 3) (Stride2 1 1) ''same'' 1 True,
         n_power_iterations = 1, init = False, u = \<lparr>shape = [1, 1], elems = [1]\<rparr>\<rparr>,
      conv_2 = \<lparr>layer = Conv2D_new 1 (3, 3) (Stride2 1 1) ''same'' 1 True,
         n_power_iterations = 1, init = False, u = \<lparr>shape = [1, 1], elems = [1]\<rparr>\<rparr>\<rparr>"

definition example_image :: tensor where
  "example_image = \<lparr>shape = [1, 2, 2, 1], elems = [1, - 2, 3, 4]\<rparr>"

text \<open>A self-attention module for two channels with one key channel, and its input.\<close>

definition example_module :: SelfAttentionModule where
  "example_module =
     \<lparr>key_size = 1, gamma = \<lparr>shape = [], elems = [0]\<rparr>,
      f_layer = \<lparr>layer = Conv2D_new 1 (1, 1) (Stride2 1 1) ''valid'' 1 False,
        n_power_iterations = 1, init = False, u = \<lparr>shape = [1, 1], elems = [1]\<rparr>\<rparr>,
      g_layer = \<lparr>layer = Conv2D_new 1 (1, 1) (Stride2 1 1) ''valid'' 1 False,
        n_power_iterations = 1, init = False, u = \<lparr>shape = [1, 1], elems = [1]\<rparr>\<rparr>,
      h_layer = \<lparr>layer = Conv2D_new 1 (1, 1) (Stride2 1 1) ''valid'' 1 False,
        n_power_iterations = 1, init = False, u = \<lparr>shape = [1, 1], elems = [1]\<rparr>\<rparr>,
      out_layer = \<lparr>layer = Conv2D_new 2 (1, 1) (Stride2 1 1) ''valid'' 1 False,
        n_power_iterations = 1, init = False, u = \<lparr>shape = [2, 1], elems = [1, 1]\<rparr>\<rparr>\<rparr>"


text \<open>An affine instance normalization for one channel.\<close>

definition example_in :: InstanceNormalization where
  "example_in =
     \<lparr>affine = True, eps = 1 / 10 ^ 12,
      gamma_affine = Some \<lparr>shape = [1, 1], elems = [1]\<rparr>,
      beta_affine = Some \<lparr>shape = [1, 1], elems = [0]\<rparr>\<rparr>"

text \<open>The Euclidean norm of a tensor's elements.\<close>

definition l2_norm :: "tensor \<Rightarrow> real" where
  "l2_norm v = sqrt (reduce_sum (square v))"

section \<open>Properties\<close>

lemma bindE_simps [simp]:
  "bindE (Inl e) k = Inl e"
  "bindE (Inr a) k = k a"
  by (simp_all add: bindE_def)

lemma power_iteration_loop_bound:
  "power_iteration_body self W = Inr l \<Longrightarrow>
   power_iteration_loop self W n (Some l) = Inr (Some l)"
  by (induction n) simp_all

lemma power_iteration_loop_Suc:
  "power_iteration_loop self W (Suc n) locals =
     bindE (power_iteration_body self W) (\<lambda>l. Inr (Some l))"
  by (cases "power_iteration_body self W") (simp_all add: power_iteration_loop_bound)

lemma power_iteration_positive:
  "1 \<le> n_power_iterations self \<Longrightarrow>
   power_iteration self W =
     bindE (power_iteration_body self W) (\<lambda>(v, u', spectral_norm). Inr (spectral_norm, u'))"
proof -
  assume "1 \<le> n_power_iterations self"
  then obtain k where k: "nat (n_power_iterations self) = Suc k"
    by (metis Suc_nat_eq_nat_zadd1 add.commute diff_add_cancel diff_ge_0_iff_ge)
  show ?thesis
    unfolding power_iteration_def k power_iteration_loop_Suc
    by (cases "power_iteration_body self W") (simp_all split: prod.splits)
qed

lemma power_iteration_empty_range:
  "n_power_iterations self < 1 \<Longrightarrow> power_iteration self W = Inl UnboundLocalError"
  by (simp add: power_iteration_def)

lemma power_iteration_body_n [simp]:
  "power_iteration_body (self\<lparr>n_power_iterations := n\<rparr>) W = power_iteration_body self W"
  by (simp add: power_iteration_body_def)

text \<open>
  C2. Whatever the instance and the matrix, \<open>power_iteration\<close> returns for every
  \<open>n_power_iterations\<close> of at least 1 what it returns for \<open>n_power_iterations = 1\<close>
  (the same pair, or the same error): each pass recomputes \<open>v\<close> from the stored
  \<open>self.u\<close>, not from the \<open>u\<close> of the pass before.
\<close>

theorem power_iteration_count_irrelevant:
  "1 \<le> n \<Longrightarrow>
   power_iteration (self\<lparr>n_power_iterations := n\<rparr>) W =
   power_iteration (self\<lparr>n_power_iterations := 1\<rparr>) W"
  by (simp add: power_iteration_positive)

theorem power_iteration_count_irrelevant_witness:
  "(1::int) \<le> 20 \<and>
   power_iteration (example_sn\<lparr>n_power_iterations := 20\<rparr>) example_W =
   power_iteration (example_sn\<lparr>n_power_iterations := 1\<rparr>) example_W"
  using power_iteration_count_irrelevant [of 20 example_sn example_W] by simp

subsection \<open>The power iteration on the concrete instance\<close>

lemma upt_2: "[0..<2] = [0, 1]"
  by (simp add: upt_rec)

lemma upt_1: "[0..<1] = [0]"
  by (simp add: upt_rec)

lemmas evaluate =
  matmul_def matmul_dims_def matmul_elems_def mat_at_def upt_2 upt_1
  normalize_l2_def scalar_op_def reduce_sum_def square_def

lemma sqrt_25: "sqrt 25 = 5"
  by (rule real_sqrt_unique) simp_all

lemma sqrt_25_60: "0 < d \<Longrightarrow> sqrt ((25 / d)\<^sup>2 + (60 / d)\<^sup>2) = 65 / d"
  by (rule real_sqrt_unique) (simp_all add: power2_eq_square field_simps)

lemma epsilon_default_pos: "0 < epsilon_default"
  by (simp add: epsilon_default_def)

lemma example_Wtu:
  "matmul example_W example_u True False = Inr \<lparr>shape = [2, 1], elems = [3, 4]\<rparr>"
  by (simp add: evaluate example_W_def example_u_def)

lemma example_v_eq:
  "normalize_l2 \<lparr>shape = [2, 1], elems = [3, 4]\<rparr> epsilon_default = example_v"
  by (simp add: evaluate example_v_def sqrt_25)

lemma example_Wv:
  "matmul example_W example_v False False =
     Inr \<lparr>shape = [2, 1],
          elems = [25 / (5 + epsilon_default), 60 / (5 + epsilon_default)]\<rparr>"
  by (simp add: evaluate example_W_def example_v_def add_divide_distrib [symmetric])

lemma example_u'_eq:
  "normalize_l2 \<lparr>shape = [2, 1],
       elems = [25 / (5 + epsilon_default), 60 / (5 + epsilon_default)]\<rparr> epsilon_default
     = example_u'"
  using epsilon_default_pos by (simp add: evaluate example_u'_def sqrt_25_60)

lemma example_sigma_general:
  "bindE (matmul \<lparr>shape = [2, 1],
             elems = [25 / (5 + e) / (65 / (5 + e) + e), 60 / (5 + e) / (65 / (5 + e) + e)]\<rparr>
           example_W True False)
     (\<lambda>utW. matmul utW \<lparr>shape = [2, 1], elems = [3 / (5 + e), 4 / (5 + e)]\<rparr> False False)
     = Inr \<lparr>shape = [1, 1], elems = [4225 / ((5 + e) * (65 + e * (5 + e)))]\<rparr>"
proof -
  have "(5 + e) * (65 / (5 + e) + e) = 65 + e * (5 + e)" if "5 + e \<noteq> 0"
    using that by (simp add: field_simps)
  then show ?thesis
    by (auto simp add: evaluate example_W_def)
qed

lemma example_sigma_eq:
  "bindE (matmul example_u' example_W True False) (\<lambda>utW. matmul utW example_v False False)
     = Inr example_sigma"
  unfolding example_u'_def example_v_def example_sigma_def
  by (rule example_sigma_general)

lemma bindE_assoc: "bindE (bindE m f) g = bindE m (\<lambda>x. bindE (f x) g)"
  by (cases m) simp_all

lemma example_body:
  "power_iteration_body example_sn example_W = Inr (example_v, example_u', example_sigma)"
proof -
  have u: "u example_sn = example_u"
    by (simp add: example_sn_def)
  have "power_iteration_body example_sn example_W =
      bindE (bindE (matmul example_u' example_W True False)
               (\<lambda>utW. matmul utW example_v False False))
        (\<lambda>spectral_norm. Inr (example_v, example_u', spectral_norm))"
    unfolding power_iteration_body_def bindE_assoc
    by (simp only: u example_Wtu bindE_simps Let_def example_v_eq example_Wv example_u'_eq)
  then show ?thesis
    by (simp only: example_sigma_eq bindE_simps)
qed

lemma example_power_iteration:
  "1 \<le> n \<Longrightarrow>
   power_iteration (example_sn\<lparr>n_power_iterations := n\<rparr>) example_W =
     Inr (example_sigma, example_u')"
  by (simp add: power_iteration_positive example_body)

text \<open>
  C1. On the matrix \<open>[[3, 4], [0, 15]]\<close> with \<open>u = (1, 0)\<close> and 20 power iterations,
  \<open>power_iteration\<close> returns a sigma below 13, although the matrix stretches the unit
  vector \<open>(0, 1)\<close> by more than 15: its largest singular value is above 15, and the
  returned sigma is more than 2 away from it, not within a thousandth.
\<close>

theorem power_iteration_misses_singular_value:
  "power_iteration (example_sn\<lparr>n_power_iterations := 20\<rparr>) example_W =
     Inr (example_sigma, example_u') \<and>
   get example_sigma [0, 0] < 13 \<and>
   l2_norm example_e2 = 1 \<and>
   (case matmul example_W example_e2 False False of
      Inl _ \<Rightarrow> False
    | Inr y \<Rightarrow> 15 < l2_norm y)"
proof -
  have a: "power_iteration (example_sn\<lparr>n_power_iterations := 20\<rparr>) example_W =
     Inr (example_sigma, example_u')"
    by (simp add: example_power_iteration)
  have b: "get example_sigma [0, 0] < 13"
    by (simp add: get_def example_sigma_def epsilon_default_def)
  have c: "l2_norm example_e2 = 1"
    by (simp add: l2_norm_def example_e2_def reduce_sum_def square_def)
  have "(15::real) < sqrt 241"
    by (rule real_less_rsqrt) simp
  then have d: "(case matmul example_W example_e2 False False of
      Inl _ \<Rightarrow> False | Inr y \<Rightarrow> 15 < l2_norm y)"
    by (simp add: evaluate example_W_def example_e2_def l2_norm_def)
  from a b c d show ?thesis by blast
qed

subsection \<open>L2 normalization\<close>

lemma sum_squares_nonneg: "0 \<le> (\<Sum>y\<leftarrow>xs. y\<^sup>2)" for xs :: "real list"
  by (induction xs) simp_all

text \<open>
  C8. \<open>normalize_l2(v)\<close> is \<open>v\<close> with every element divided by
  \<open>sqrt(sum(v\<^sup>2)) + 10\<^sup>-\<^sup>1\<^sup>2\<close>: the epsilon is added to the norm, outside the square root.
  The divisor is positive, so nothing is divided by zero, and a vector of zeros is
  returned as it is.
\<close>

theorem normalize_l2_formula:
  "normalize_l2 v epsilon_default =
     \<lparr>shape = shape v,
      elems = map (\<lambda>x. x / (sqrt (\<Sum>y\<leftarrow>elems v. y\<^sup>2) + 1 / 10 ^ 12)) (elems v)\<rparr> \<and>
   0 < sqrt (\<Sum>y\<leftarrow>elems v. y\<^sup>2) + 1 / 10 ^ 12 \<and>
   normalize_l2 \<lparr>shape = s, elems = replicate n 0\<rparr> epsilon_default =
     \<lparr>shape = s, elems = replicate n 0\<rparr>"
proof -
  have "0 \<le> (\<Sum>y\<leftarrow>elems v. y\<^sup>2)"
    by (rule sum_squares_nonneg)
  then have "0 \<le> sqrt (\<Sum>y\<leftarrow>elems v. y\<^sup>2)"
    by simp
  then have pos: "0 < sqrt (\<Sum>y\<leftarrow>elems v. y\<^sup>2) + 1 / 10 ^ 12"
    by (simp add: add_nonneg_pos)
  have formula: "normalize_l2 v epsilon_default =
     \<lparr>shape = shape v,
      elems = map (\<lambda>x. x / (sqrt (\<Sum>y\<leftarrow>elems v. y\<^sup>2) + 1 / 10 ^ 12)) (elems v)\<rparr>"
    by (simp add: normalize_l2_def scalar_op_def reduce_sum_def square_def epsilon_default_def
        comp_def)
  have zero: "normalize_l2 \<lparr>shape = s, elems = replicate n 0\<rparr> epsilon_default =
     \<lparr>shape = s, elems = replicate n 0\<rparr>"
    by (simp add: normalize_l2_def scalar_op_def)
  from formula pos zero show ?thesis by blast
qed

subsection \<open>Shapes in the power iteration\<close>

lemma matmul_rank2:
  "matmul a b ta tb = Inr c \<Longrightarrow> shape a = [ra, ca] \<Longrightarrow>
   \<exists>rb cb. shape b = [rb, cb] \<and> (if ta then ra else ca) = (if tb then cb else rb) \<and>
     shape c = [if ta then ca else ra, if tb then rb else cb]"
  by (auto simp: matmul_def matmul_dims_def Let_def split: list.splits if_splits)

lemma normalize_l2_shape [simp]: "shape (normalize_l2 v e) = shape v"
  by (simp add: normalize_l2_def scalar_op_def)

lemma power_iteration_body_shape:
  assumes "power_iteration_body self W = Inr (v, u', s)" "length (shape W) = 2"
  shows "shape u' = shape (u self)"
proof -
  from assms(2) obtain ra ca where W: "shape W = [ra, ca]"
    by (cases "shape W" rule: list.exhaust; simp) (metis Suc_length_conv length_0_conv)
  from assms(1) obtain Wtu Wv where
    1: "matmul W (u self) True False = Inr Wtu" and
    2: "matmul W (normalize_l2 Wtu epsilon_default) False False = Inr Wv" and
    3: "u' = normalize_l2 Wv epsilon_default"
    by (auto simp: power_iteration_body_def bindE_def Let_def split: sum.splits)
  from matmul_rank2 [OF 1 W] obtain rb cb where
    u: "shape (u self) = [rb, cb]" "ra = rb" "shape Wtu = [ca, cb]" by auto
  from matmul_rank2 [OF 2 W] have "shape Wv = [ra, cb]"
    using u by auto
  with 3 u show ?thesis by simp
qed

lemma power_iteration_shape:
  assumes "power_iteration self W = Inr (s, u')" "length (shape W) = 2"
  shows "shape u' = shape (u self)"
proof (cases "1 \<le> n_power_iterations self")
  case True
  with assms(1) obtain v where "power_iteration_body self W = Inr (v, u', s)"
    by (auto simp: power_iteration_positive bindE_def split: sum.splits)
  then show ?thesis using assms(2) by (rule power_iteration_body_shape)
next
  case False
  then show ?thesis using assms(1) by (simp add: power_iteration_empty_range)
qed

lemma reshape_rank: "reshape t dims = Inr r \<Longrightarrow> length (shape r) = length dims"
  by (auto simp: reshape_def Let_def split: if_splits)

text \<open>
  C3. A call of \<open>normalize_weights\<close> that returns runs the power iteration on the
  reshaped raw kernel; with \<open>training\<close> true the instance it leaves is the old one with
  \<open>u\<close> overwritten by the vector the power iteration returned, with \<open>training\<close> false
  it is the old instance, unchanged.
\<close>

theorem normalize_weights_updates_u:
  assumes "normalize_weights self training = Inr (W_sn, self')"
  shows "\<exists>W_orig W_res sigma u_new.
     kernel_orig (layer self) = Some W_orig \<and>
     reshape W_orig [int (last (shape (hd (weights (layer self))))), - 1] = Inr W_res \<and>
     power_iteration self W_res = Inr (sigma, u_new) \<and>
     self' = (if training then self\<lparr>u := u_new\<rparr> else self)"
  using assms
  by (auto simp: normalize_weights_def bindE_def assign_u_def
      split: sum.splits list.splits option.splits if_splits prod.splits)

text \<open>
  The assignment to \<open>u\<close> cannot fail: where the inference call returns, the training
  call returns the same weights and overwrites \<open>u\<close>.
\<close>

lemma normalize_weights_training:
  assumes "normalize_weights self False = Inr (W_sn, self')"
  shows "\<exists>u_new. normalize_weights self True = Inr (W_sn, self\<lparr>u := u_new\<rparr>)"
proof -
  from assms obtain W_orig W_res sigma u_new n where
    a: "(case weights (layer self) of [] \<Rightarrow> Inl IndexError
         | w # _ \<Rightarrow> (if shape w = [] then Inl IndexError else Inr (last (shape w)))) = Inr n"
       "(case kernel_orig (layer self) of None \<Rightarrow> Inl AttributeError | Some k \<Rightarrow> Inr k) = Inr W_orig"
       "reshape W_orig [int n, - 1] = Inr W_res"
       "power_iteration self W_res = Inr (sigma, u_new)"
       "binop (/) W_orig sigma = Inr W_sn"
    by (auto simp: normalize_weights_def bindE_def
        split: sum.splits prod.splits)
  from reshape_rank [OF a(3)] have "length (shape W_res) = 2" by simp
  with a(4) have "shape u_new = shape (u self)" by (rule power_iteration_shape)
  with a show ?thesis
    by (auto simp: normalize_weights_def assign_u_def)
qed

subsection \<open>The wrapped layer across calls\<close>

lemma Conv2D_build_built:
  "Conv2D_build fw l x = Inr l' \<Longrightarrow> built l'"
  by (auto simp: Conv2D_build_def bindE_def split: if_splits sum.splits)

lemma Conv2D_build_idem: "built l \<Longrightarrow> Conv2D_build fw l x = Inr l"
  by (simp add: Conv2D_build_def)

lemma Conv2D_call_built:
  "Conv2D_call fw l x = Inr (y, l') \<Longrightarrow> built l'"
  by (auto simp: Conv2D_call_def bindE_def dest: Conv2D_build_built split: sum.splits)

lemma Conv2D_call_keeps:
  "built l \<Longrightarrow> Conv2D_call fw l x = Inr (y, l') \<Longrightarrow> l' = l"
  by (auto simp: Conv2D_call_def Conv2D_build_idem bindE_def split: sum.splits)

lemma weights_kernel [simp]: "weights (l\<lparr>kernel := k\<rparr>) = weights l"
  by (simp add: weights_def)

lemma power_iteration_body_layer [simp]:
  "power_iteration_body (self\<lparr>layer := l\<rparr>) W = power_iteration_body self W"
  by (simp add: power_iteration_body_def)

lemma power_iteration_loop_layer [simp]:
  "power_iteration_loop (self\<lparr>layer := l\<rparr>) W n locals = power_iteration_loop self W n locals"
  by (induction n arbitrary: locals) simp_all

lemma power_iteration_layer [simp]:
  "power_iteration (self\<lparr>layer := l\<rparr>) W = power_iteration self W"
  by (simp add: power_iteration_def)

lemma normalize_weights_inference:
  "normalize_weights self False = Inr (W_sn, self') \<Longrightarrow> self' = self"
  by (auto simp: normalize_weights_def bindE_def split: sum.splits prod.splits)

lemma normalize_weights_kernel:
  assumes "normalize_weights self False = Inr (W_sn, self)"
  shows "normalize_weights (self\<lparr>layer := (layer self)\<lparr>kernel := k\<rparr>\<rparr>) False =
           Inr (W_sn, self\<lparr>layer := (layer self)\<lparr>kernel := k\<rparr>\<rparr>)"
  using assms
  by (auto simp: normalize_weights_def bindE_def split: sum.splits prod.splits)

lemma set_weights_built:
  "set_weights l ws = Inr l' \<Longrightarrow> built l' = built l"
  by (auto simp: set_weights_def bindE_def split: sum.splits)

lemma initialize_state:
  assumes "initialize fw self x = Inr self1"
  shows "init self1 \<and> built (layer self1)"
  using assms
  by (auto simp: initialize_def bindE_def Let_def
      dest!: Conv2D_call_built set_weights_built split: sum.splits prod.splits if_splits)

text \<open>
  C4. For an instance that is either not yet initialized or has a built layer, a call with
  \<open>training = False\<close> that returns leaves a state in which the same call on the same
  input returns the same output and the same state again; so does every later repetition.
\<close>

theorem inference_repeatable:
  assumes inv: "init self \<longrightarrow> built (layer self)"
    and first: "SpectralNormalization_call fw self x False = Inr (y, self')"
  shows "SpectralNormalization_call fw self' x False = Inr (y, self')"
proof -
  from first obtain self1 W_sn self2 l' where
    i: "(if \<not> init self then initialize fw self x else Inr self) = Inr self1" and
    n: "normalize_weights self1 False = Inr (W_sn, self2)" and
    c: "Conv2D_call fw ((layer self2)\<lparr>kernel := KernelTensor W_sn\<rparr>) x = Inr (y, l')" and
    r: "self' = self2\<lparr>layer := l'\<rparr>"
    by (auto simp: SpectralNormalization_call_def bindE_def Let_def
        split: sum.splits prod.splits)
  from i inv have s1: "init self1 \<and> built (layer self1)"
    by (auto dest: initialize_state split: if_splits)
  from n have s2: "self2 = self1" by (rule normalize_weights_inference)
  let ?l = "(layer self1)\<lparr>kernel := KernelTensor W_sn\<rparr>"
  from s1 have "built ?l" by simp
  moreover from c s2 have "Conv2D_call fw ?l x = Inr (y, l')" by simp
  ultimately have l': "l' = ?l" by (rule Conv2D_call_keeps)
  have n': "normalize_weights self' False = Inr (W_sn, self')"
    using normalize_weights_kernel [of self1 W_sn "KernelTensor W_sn"] n r s2 l' by simp
  have same: "(layer self')\<lparr>kernel := KernelTensor W_sn\<rparr> = ?l"
    using r s2 l' by simp
  have init': "init self'" using r s2 s1 by simp
  have upd: "self'\<lparr>layer := ?l\<rparr> = self'" using r s2 l' by simp
  show ?thesis
    using c s2 l' init' n' same upd
    by (simp add: SpectralNormalization_call_def Let_def)
qed

lemma upt_4: "[0..<4] = [0, 1, 2, 3]"
  by (simp add: upt_rec)

lemma example_reshape: "reshape example_kernel [2, - 1] = Inr example_W"
  by (simp add: reshape_def example_kernel_def example_W_def)

lemma example_divide: "binop (/) example_kernel example_sigma = Inr example_W_sn"
  by (simp add: binop_def example_kernel_def example_sigma_def example_W_sn_def sigma_value_def
        broadcast_shapes_def upt_4 get_def bidx_def)

lemma example_sn_n: "example_sn\<lparr>n_power_iterations := 20\<rparr> = example_sn"
  by (simp add: example_sn_def)

lemma example_normalize_weights:
  "normalize_weights example_sn t =
     Inr (example_W_sn, if t then example_sn\<lparr>u := example_u'\<rparr> else example_sn)"
proof -
  have p: "power_iteration example_sn example_W = Inr (example_sigma, example_u')"
    using example_power_iteration [of 20] by (simp add: example_sn_n)
  have w: "weights (layer example_sn) = [example_kernel, example_kernel]"
    by (simp add: weights_def example_sn_def example_conv_def Conv2D_new_def)
  have k: "kernel_orig (layer example_sn) = Some example_kernel"
    by (simp add: example_sn_def example_conv_def Conv2D_new_def)
  have s: "shape example_kernel = [1, 1, 2, 2]"
    by (simp add: example_kernel_def)
  have a: "shape example_u' = shape (u example_sn)"
    by (simp add: example_sn_def example_u'_def example_u_def)
  show ?thesis
    unfolding normalize_weights_def
    by (simp add: w k s example_reshape p example_divide assign_u_def a)
qed

lemma fresh_new:
  "SpectralNormalization_new example_framework
     (Conv2D_new 2 (1, 1) (Stride2 1 1) ''valid'' 1 False) 1 = Inr fresh_sn"
  by (simp add: SpectralNormalization_new_def add_weight_def Conv2D_new_def fresh_sn_def
      example_framework_def ones_def eval_nat_numeral)

lemmas run =
  SpectralNormalization_call_def initialize_def Conv2D_call_def Conv2D_build_def
  Conv2D_new_def add_weight_def kernel_value_def weights_def set_weights_def
  normalize_weights_def reshape_def power_iteration_def power_iteration_body_def
  matmul_def matmul_dims_def matmul_elems_def mat_at_def normalize_l2_def scalar_op_def
  reduce_sum_def square_def binop_def broadcast_shapes_def get_def bidx_def assign_u_def
  example_convolution_def example_framework_def upt_1 upt_2 upt_4 Let_def

lemma fresh_call:
  "\<exists>y s'. SpectralNormalization_call example_framework fresh_sn example_x False = Inr (y, s')"
  by (simp add: run fresh_sn_def example_x_def)


subsection \<open>Concrete runs\<close>

theorem normalize_weights_updates_u_witness:
  "normalize_weights example_sn True = Inr (example_W_sn, example_sn\<lparr>u := example_u'\<rparr>) \<and>
   u (example_sn\<lparr>u := example_u'\<rparr>) \<noteq> u example_sn \<and>
   (\<exists>W_orig W_res sigma u_new.
     kernel_orig (layer example_sn) = Some W_orig \<and>
     reshape W_orig [int (last (shape (hd (weights (layer example_sn))))), - 1] = Inr W_res \<and>
     power_iteration example_sn W_res = Inr (sigma, u_new) \<and>
     example_sn\<lparr>u := example_u'\<rparr> = (if True then example_sn\<lparr>u := u_new\<rparr> else example_sn))"
proof -
  have h: "normalize_weights example_sn True = Inr (example_W_sn, example_sn\<lparr>u := example_u'\<rparr>)"
    by (simp add: example_normalize_weights)
  have "0 < 60 / (5 + epsilon_default) / (65 / (5 + epsilon_default) + epsilon_default)"
    using epsilon_default_pos by (intro divide_pos_pos add_pos_pos) simp_all
  then have "60 / (5 + epsilon_default) / (65 / (5 + epsilon_default) + epsilon_default) \<noteq> 0"
    by (rule less_imp_neq [THEN not_sym])
  then have "elems example_u' ! 1 \<noteq> elems example_u ! 1"
    unfolding example_u'_def example_u_def by simp
  then have "example_u' \<noteq> example_u"
    by auto
  then have d: "u (example_sn\<lparr>u := example_u'\<rparr>) \<noteq> u example_sn"
    by (simp add: example_sn_def)
  from h d normalize_weights_updates_u [OF h] show ?thesis by blast
qed

theorem inference_repeatable_witness:
  "\<exists>y s'. SpectralNormalization_call example_framework fresh_sn example_x False = Inr (y, s') \<and>
     SpectralNormalization_call example_framework s' example_x False = Inr (y, s')"
proof -
  have inv: "init fresh_sn \<longrightarrow> built (layer fresh_sn)"
    by (simp add: fresh_sn_def)
  from fresh_call obtain y s' where
    first: "SpectralNormalization_call example_framework fresh_sn example_x False = Inr (y, s')"
    by blast
  from first inference_repeatable [OF inv first] show ?thesis by blast
qed

subsection \<open>The stored vector across calls\<close>

lemma initialize_u: "initialize fw self x = Inr self1 \<Longrightarrow> u self1 = u self"
  by (auto simp: initialize_def bindE_def Let_def split: sum.splits prod.splits if_splits)

lemma normalize_weights_u:
  "normalize_weights self training = Inr (W_sn, self') \<Longrightarrow>
   shape (u self') = shape (u self) \<and> (\<not> training \<longrightarrow> u self' = u self)"
  by (auto simp: normalize_weights_def bindE_def assign_u_def
      split: sum.splits prod.splits if_splits)

lemma SpectralNormalization_call_u:
  assumes "SpectralNormalization_call fw self x training = Inr (y, self')"
  shows "shape (u self') = shape (u self) \<and> (\<not> training \<longrightarrow> u self' = u self)"
proof -
  from assms obtain self1 W_sn self2 l' where
    i: "(if \<not> init self then initialize fw self x else Inr self) = Inr self1" and
    n: "normalize_weights self1 training = Inr (W_sn, self2)" and
    r: "self' = self2\<lparr>layer := l'\<rparr>"
    by (auto simp: SpectralNormalization_call_def bindE_def Let_def
        split: sum.splits prod.splits)
  from i have "u self1 = u self"
    by (auto dest: initialize_u split: if_splits)
  with normalize_weights_u [OF n] r show ?thesis by simp
qed

text \<open>
  C5, as amended. The constructor creates \<open>u\<close> at once, before any forward pass, with
  shape \<open>[layer.filters, 1]\<close> and the values of the random normal initializer; a forward
  pass keeps that shape, and an inference pass keeps \<open>u\<close> as it is.
\<close>

theorem u_created_by_constructor:
  assumes "SpectralNormalization_new fw l n = Inr self"
    and "SpectralNormalization_call fw self x training = Inr (y, self')"
  shows "\<not> init self \<and>
         u self = \<lparr>shape = [nat (filters l), 1], elems = random_normal fw [nat (filters l), 1]\<rparr> \<and>
         shape (u self') = [nat (filters l), 1] \<and>
         (\<not> training \<longrightarrow> u self' = u self)"
proof -
  from assms(1) have a: "\<not> init self"
    and b: "u self = \<lparr>shape = [nat (filters l), 1], elems = random_normal fw [nat (filters l), 1]\<rparr>"
    by (auto simp: SpectralNormalization_new_def add_weight_def split: if_splits)
  from SpectralNormalization_call_u [OF assms(2)] a b show ?thesis by simp
qed

theorem u_created_by_constructor_witness:
  "\<exists>y s'. SpectralNormalization_new example_framework
       (Conv2D_new 2 (1, 1) (Stride2 1 1) ''valid'' 1 False) 1 = Inr fresh_sn \<and>
     SpectralNormalization_call example_framework fresh_sn example_x False = Inr (y, s') \<and>
     \<not> init fresh_sn \<and>
     shape (u s') = [2, 1] \<and> u s' = u fresh_sn"
proof -
  from fresh_call obtain y s' where
    c: "SpectralNormalization_call example_framework fresh_sn example_x False = Inr (y, s')"
    by blast
  from u_created_by_constructor [OF fresh_new c] fresh_new c show ?thesis
    by (auto simp: Conv2D_new_def)
qed

text \<open>
  The claim as stated fails: a wrapper fresh from its constructor, with the initialization
  flag unset and the layer not built, already holds \<open>u\<close>.
\<close>

theorem u_not_lazy_counterexample:
  "SpectralNormalization_new example_framework
     (Conv2D_new 2 (1, 1) (Stride2 1 1) ''valid'' 1 False) 1 = Inr fresh_sn \<and>
   \<not> init fresh_sn \<and> \<not> built (layer fresh_sn) \<and>
   kernel_variable (layer fresh_sn) = None \<and>
   u fresh_sn = \<lparr>shape = [2, 1], elems = [1, 1]\<rparr>"
proof -
  have "\<not> init fresh_sn \<and> \<not> built (layer fresh_sn) \<and>
      kernel_variable (layer fresh_sn) = None \<and>
      u fresh_sn = \<lparr>shape = [2, 1], elems = [1, 1]\<rparr>"
    by (simp add: fresh_sn_def Conv2D_new_def)
  with fresh_new show ?thesis by blast
qed

subsection \<open>The self-attention constructor\<close>





subsection \<open>The residual block\<close>



lemma example_block_new:
  "ResidualBlock_new example_framework 1 (Stride2 1 1) 1 False is_last = Inr (example_block is_last)"
  by (simp add: ResidualBlock_new_def SpectralNormalization_new_def add_weight_def
      example_block_def example_framework_def ones_def Conv2D_new_def)



subsection \<open>Indices and broadcasting\<close>

lemma valid_index_iff: "valid_index s idx \<longleftrightarrow> list_all2 (<) idx s"
  by (induction s idx rule: valid_index.induct) auto



lemma ravel_less: "valid_index s idx \<Longrightarrow> ravel s idx < prod_list s"
proof (induction s idx rule: valid_index.induct)
  case (2 d ds i "is")
  then have r: "ravel ds is < prod_list ds" and i: "Suc i \<le> d" by simp_all
  have "i * prod_list ds + ravel ds is < Suc i * prod_list ds"
    using r by simp
  also have "\<dots> \<le> d * prod_list ds"
    using i by (rule mult_le_mono1)
  finally show ?case by simp
qed simp_all


lemma unravel_ravel: "valid_index s idx \<Longrightarrow> unravel s (ravel s idx) = idx"
proof (induction s idx rule: valid_index.induct)
  case (2 d ds i "is")
  then have r: "ravel ds is < prod_list ds" by (simp add: ravel_less)
  with 2 show ?case by simp
qed simp_all

lemma map2_select_valid:
  fixes s :: "nat list"
  shows "list_all2 (<) idx s \<Longrightarrow> map2 (\<lambda>d i. if d = Suc 0 then 0 else i) s idx = idx"
  by (induction idx s rule: list_all2_induct) auto

lemma bidx_valid: "valid_index s idx \<Longrightarrow> bidx s idx = idx"
  by (simp add: bidx_def valid_index_iff map2_select_valid list_all2_lengthD)







lemma binop_shape:
  "binop f a b = Inr c \<Longrightarrow> broadcast_shapes (shape a) (shape b) = Some (shape c)"
  by (auto simp: binop_def split: option.splits)

lemma binop_get:
  assumes "binop f a b = Inr c" "valid_index (shape c) idx"
  shows "get c idx = f (get a (bidx (shape a) idx)) (get b (bidx (shape b) idx))"
proof -
  from assms(1) obtain s where s: "broadcast_shapes (shape a) (shape b) = Some s" and
    c: "c = \<lparr>shape = s,
               elems = map (\<lambda>n. f (get a (bidx (shape a) (unravel s n)))
                                 (get b (bidx (shape b) (unravel s n))))
                           [0..<prod_list s]\<rparr>"
    by (auto simp: binop_def split: option.splits)
  from assms(2) c have v: "valid_index s idx" by simp
  then have "ravel s idx < prod_list s" by (rule ravel_less)
  with v show ?thesis
    by (simp add: c get_def unravel_ravel)
qed

lemma binop_well_formed: "binop f a b = Inr c \<Longrightarrow> well_formed c"
  by (auto simp: binop_def well_formed_def split: option.splits)

subsection \<open>The attention gate\<close>






lemma example_module_new:
  "SelfAttentionModule_new example_framework 1 2 (Some 1) = Inr example_module"
  by (simp add: SelfAttentionModule_new_def projection_def SpectralNormalization_new_def
      add_weight_def example_module_def example_framework_def ones_def zeros_def
      Conv2D_new_def numeral_2_eq_2)

subsection \<open>Instance normalization\<close>

lemma length_concat_map_upt:
  "length (concat (map (\<lambda>a. map (f a) [0..<n]) [0..<m])) = m * n"
  by (induction m) simp_all

lemma nth_concat_map_upt:
  "a < m \<Longrightarrow> r < n \<Longrightarrow> concat (map (\<lambda>a. map (f a) [0..<n]) [0..<m]) ! (a * n + r) = f a r"
proof (induction m)
  case 0
  then show ?case by simp
next
  case (Suc m)
  show ?case
  proof (cases "a < m")
    case True
    with Suc.prems have "a * n + r < m * n"
      by (metis add.commute less_le_trans mult_Suc mult_le_mono1 nat_add_left_cancel_less Suc_leI)
    with True Suc show ?thesis
      by (simp add: nth_append length_concat_map_upt)
  next
    case False
    with Suc.prems have "a = m" by simp
    with Suc.prems show ?thesis
      by (simp add: nth_append length_concat_map_upt)
  qed
qed

lemma offset_less: "b < B \<Longrightarrow> c < C \<Longrightarrow> b * C + c < B * (C::nat)"
proof -
  assume "b < B" "c < C"
  then have "b * C + c < Suc b * C" by simp
  also from \<open>b < B\<close> have "\<dots> \<le> B * C" by (intro mult_le_mono1) simp
  finally show ?thesis .
qed

lemma reduce_mean_12_rank4:
  assumes "shape x = [B, H, W, C]"
  shows "\<exists>m. reduce_mean_12 x = Inr m \<and> shape m = [B, C] \<and> length (elems m) = B * C \<and>
     (\<forall>b<B. \<forall>c<C. elems m ! (b * C + c) =
        (\<Sum>i\<leftarrow>[0..<H]. \<Sum>j\<leftarrow>[0..<W]. get x [b, i, j, c]) / real (H * W))"
  using assms
  by (simp add: reduce_mean_12_def nth_concat_map_upt length_concat_map_upt)

text \<open>The following facts are stated in the simplifier's normal form, \<open>Suc 0\<close> for 1.\<close>

lemma get_keep_dims:
  "get (m\<lparr>shape := [B, Suc 0, Suc 0, C]\<rparr>) [b, 0, 0, c] = elems m ! (b * C + c)"
  by (simp add: get_def)

lemma bidx_keep_dims:
  "b < B \<Longrightarrow> c < C \<Longrightarrow> bidx [B, Suc 0, Suc 0, C] [b, i, j, c] = [b, 0, 0, c]"
  by (auto simp: bidx_def)

lemma bidx_full:
  "b < B \<Longrightarrow> i < H \<Longrightarrow> j < W \<Longrightarrow> c < C \<Longrightarrow> bidx [B, H, W, C] [b, i, j, c] = [b, i, j, c]"
  by (simp add: bidx_valid)

lemma bidx_channel:
  "c < C \<Longrightarrow> bidx [Suc 0, C] [b, i, j, c] = [0, c]"
  by (auto simp: bidx_def)

lemma broadcast_keep_dims:
  "broadcast_shapes [B, H, W, C] [B, Suc 0, Suc 0, C] = Some [B, H, W, C]"
  by (simp add: broadcast_shapes_def)

lemma broadcast_channel: "broadcast_shapes [B, H, W, C] [Suc 0, C] = Some [B, H, W, C]"
  by (simp add: broadcast_shapes_def)

lemma get_square:
  "ravel (shape t) idx < length (elems t) \<Longrightarrow> get (square t) idx = (get t idx)\<^sup>2"
  by (simp add: get_def square_def)

lemma sum_list_upt_cong:
  "(\<And>i. i < n \<Longrightarrow> f i = g i) \<Longrightarrow> (\<Sum>i\<leftarrow>[0..<n]. f i) = (\<Sum>i\<leftarrow>[0..<n]. g i)" for f :: "nat \<Rightarrow> real"
  by (rule arg_cong [where f = sum_list]) simp

lemma spatial_statistics:
  assumes x: "shape x = [B, H, W, C]"
  shows "\<exists>m s0 centred.
     reduce_mean_12 x = Inr m \<and> shape m = [B, C] \<and>
     reduce_std_12 x = Inr s0 \<and> shape s0 = [B, C] \<and> length (elems s0) = B * C \<and>
     binop (-) x (m\<lparr>shape := [B, Suc 0, Suc 0, C]\<rparr>) = Inr centred \<and>
     shape centred = [B, H, W, C] \<and>
     (\<forall>b<B. \<forall>c<C. elems s0 ! (b * C + c) = spatial_std x b c) \<and>
     (\<forall>b<B. \<forall>i<H. \<forall>j<W. \<forall>c<C.
        get centred [b, i, j, c] = get x [b, i, j, c] - spatial_mean x b c)"
proof -
  from reduce_mean_12_rank4 [OF x] obtain m where
    m: "reduce_mean_12 x = Inr m" "shape m = [B, C]" and
    mv: "\<And>b c. b < B \<Longrightarrow> c < C \<Longrightarrow> elems m ! (b * C + c) = spatial_mean x b c"
    by (auto simp: spatial_mean_def x)
  let ?mean = "m\<lparr>shape := [B, Suc 0, Suc 0, C]\<rparr>"
  have "broadcast_shapes (shape x) (shape ?mean) = Some [B, H, W, C]"
    by (simp add: x broadcast_keep_dims)
  then obtain d where d: "binop (-) x ?mean = Inr d" "shape d = [B, H, W, C]"
    by (simp add: binop_def)
  have dv: "get d [b, i, j, c] = get x [b, i, j, c] - spatial_mean x b c"
    if "b < B" "i < H" "j < W" "c < C" for b i j c
    using binop_get [OF d(1), of "[b, i, j, c]"] that
    by (simp add: d(2) x bidx_full bidx_keep_dims get_keep_dims mv)
  have dl: "length (elems d) = prod_list [B, H, W, C]"
    using binop_well_formed [OF d(1)] by (simp add: well_formed_def d(2))
  have sq: "get (square d) [b, i, j, c] = (get x [b, i, j, c] - spatial_mean x b c)\<^sup>2"
    if "b < B" "i < H" "j < W" "c < C" for b i j c
  proof -
    from that have "valid_index (shape d) [b, i, j, c]" by (simp add: d(2))
    then have "ravel (shape d) [b, i, j, c] < length (elems d)"
      using ravel_less dl d(2) by metis
    then show ?thesis by (simp add: get_square dv that)
  qed
  have "shape (square d) = [B, H, W, C]"
    by (simp add: square_def d(2))
  from reduce_mean_12_rank4 [OF this] obtain var where
    var: "reduce_mean_12 (square d) = Inr var" "shape var = [B, C]"
      "length (elems var) = B * C" and
    vv: "\<And>b c. b < B \<Longrightarrow> c < C \<Longrightarrow> elems var ! (b * C + c) =
        (\<Sum>i\<leftarrow>[0..<H]. \<Sum>j\<leftarrow>[0..<W]. get (square d) [b, i, j, c]) / real (H * W)"
    by auto
  let ?s0 = "var\<lparr>elems := map sqrt (elems var)\<rparr>"
  have s0: "reduce_std_12 x = Inr ?s0"
    unfolding reduce_std_12_def using d(1) var(1)
    by (simp add: m expand_dims_def)
  have sv: "elems ?s0 ! (b * C + c) = spatial_std x b c" if "b < B" "c < C" for b c
  proof -
    from that have k: "b * C + c < length (elems var)"
      by (simp add: var(3) offset_less)
    have "(\<Sum>i\<leftarrow>[0..<H]. \<Sum>j\<leftarrow>[0..<W]. get (square d) [b, i, j, c]) =
        (\<Sum>i\<leftarrow>[0..<H]. \<Sum>j\<leftarrow>[0..<W]. (get x [b, i, j, c] - spatial_mean x b c)\<^sup>2)"
      by (intro sum_list_upt_cong) (simp add: sq that)
    with k vv [OF that] show ?thesis
      by (simp add: spatial_std_def x)
  qed
  show ?thesis
    using m s0 d dv sv by (intro exI [of _ m] exI [of _ ?s0] exI [of _ d]) (simp add: var)
qed

text \<open>
  C10. On a tensor of shape \<open>[B, H, W, C]\<close> the call returns a tensor of the same shape
  whose element at \<open>(b, i, j, c)\<close> is \<open>(x - mean) / (std + 10\<^sup>-\<^sup>1\<^sup>2)\<close> with the mean
  and the standard deviation of the pair \<open>(b, c)\<close> over the spatial axes, and, when
  \<open>affine\<close> is set, that value times \<open>gamma[c]\<close> plus \<open>beta[c]\<close>; the constructor
  starts \<open>gamma\<close> at ones and \<open>beta\<close> at zeros.
\<close>

theorem instance_normalization_formula:
  assumes x: "shape x = [B, H, W, C]"
    and e: "eps self = 1 / 10 ^ 12"
    and a: "affine self \<longrightarrow>
              gamma_affine self = Some g \<and> beta_affine self = Some bt \<and>
              shape g = [1, C] \<and> shape bt = [1, C]"
  shows "(\<exists>y. InstanceNormalization_call self x = Inr y \<and> shape y = [B, H, W, C] \<and>
           (\<forall>b<B. \<forall>i<H. \<forall>j<W. \<forall>c<C.
              get y [b, i, j, c] =
                (if affine self then normalized x b i j c * get g [0, c] + get bt [0, c]
                 else normalized x b i j c))) \<and>
         InstanceNormalization_new (int C) True =
           Inr \<lparr>affine = True, eps = 1 / 10 ^ 12,
                gamma_affine = Some \<lparr>shape = [1, C], elems = replicate C 1\<rparr>,
                beta_affine = Some \<lparr>shape = [1, C], elems = replicate C 0\<rparr>\<rparr> \<and>
         InstanceNormalization_new (int C) False =
           Inr \<lparr>affine = False, eps = 1 / 10 ^ 12, gamma_affine = None, beta_affine = None\<rparr>"
proof -
  from spatial_statistics [OF x] obtain m s0 d where
    m: "reduce_mean_12 x = Inr m" "shape m = [B, C]" and
    s0: "reduce_std_12 x = Inr s0" "shape s0 = [B, C]" "length (elems s0) = B * C" and
    d: "binop (-) x (m\<lparr>shape := [B, Suc 0, Suc 0, C]\<rparr>) = Inr d" "shape d = [B, H, W, C]" and
    sv: "\<And>b c. b < B \<Longrightarrow> c < C \<Longrightarrow> elems s0 ! (b * C + c) = spatial_std x b c" and
    dv: "\<And>b i j c. b < B \<Longrightarrow> i < H \<Longrightarrow> j < W \<Longrightarrow> c < C \<Longrightarrow>
           get d [b, i, j, c] = get x [b, i, j, c] - spatial_mean x b c"
    by blast
  let ?den = "scalar_op (+) (s0\<lparr>shape := [B, Suc 0, Suc 0, C]\<rparr>) (eps self)"
  have den: "get ?den [b, 0, 0, c] = spatial_std x b c + 1 / 10 ^ 12" if "b < B" "c < C" for b c
  proof -
    from that have "b * C + c < length (elems s0)"
      by (simp add: s0(3) offset_less)
    then show ?thesis
      by (simp add: get_def scalar_op_def sv that e)
  qed
  have sd: "shape ?den = [B, Suc 0, Suc 0, C]"
    by (simp add: scalar_op_def)
  have "broadcast_shapes (shape d) (shape ?den) = Some [B, H, W, C]"
    by (simp only: d(2) sd broadcast_keep_dims)
  then obtain x1 where x1: "binop (/) d ?den = Inr x1" "shape x1 = [B, H, W, C]"
    by (simp add: binop_def)
  have x1v: "get x1 [b, i, j, c] = normalized x b i j c"
    if "b < B" "i < H" "j < W" "c < C" for b i j c
  proof -
    from that have "valid_index (shape x1) [b, i, j, c]"
      by (simp add: x1(2))
    from binop_get [OF x1(1) this]
    have "get x1 [b, i, j, c] = get d [b, i, j, c] / get ?den [b, 0, 0, c]"
      using that by (simp only: d(2) sd bidx_full bidx_keep_dims)
    then show ?thesis
      by (simp only: dv den that normalized_def)
  qed
  have pre: "InstanceNormalization_call self x =
      (if affine self then
         bindE (case gamma_affine self of None \<Rightarrow> Inl AttributeError | Some g \<Rightarrow> Inr g) (\<lambda>g.
         bindE (binop times x1 g) (\<lambda>x2.
         bindE (case beta_affine self of None \<Rightarrow> Inl AttributeError | Some b \<Rightarrow> Inr b) (\<lambda>b.
           binop (+) x2 b)))
       else Inr x1)"
    unfolding InstanceNormalization_call_def
    by (simp add: m s0 expand_dims_def d x1)
  have call: "\<exists>y. InstanceNormalization_call self x = Inr y \<and> shape y = [B, H, W, C] \<and>
           (\<forall>b<B. \<forall>i<H. \<forall>j<W. \<forall>c<C.
              get y [b, i, j, c] =
                (if affine self then normalized x b i j c * get g [0, c] + get bt [0, c]
                 else normalized x b i j c))"
  proof (cases "affine self")
    case False
    with pre x1 x1v show ?thesis by simp
  next
    case True
    with a have g: "gamma_affine self = Some g" "shape g = [Suc 0, C]"
      and bt: "beta_affine self = Some bt" "shape bt = [Suc 0, C]" by simp_all
    have "broadcast_shapes (shape x1) (shape g) = Some [B, H, W, C]"
      by (simp add: x1(2) g(2) broadcast_channel)
    then obtain x2 where x2: "binop times x1 g = Inr x2" "shape x2 = [B, H, W, C]"
      by (simp add: binop_def)
    have x2v: "get x2 [b, i, j, c] = normalized x b i j c * get g [0, c]"
      if "b < B" "i < H" "j < W" "c < C" for b i j c
      using binop_get [OF x2(1), of "[b, i, j, c]"] that
      by (simp add: x2(2) x1(2) g(2) bidx_full bidx_channel x1v)
    have "broadcast_shapes (shape x2) (shape bt) = Some [B, H, W, C]"
      by (simp add: x2(2) bt(2) broadcast_channel)
    then obtain y where y: "binop (+) x2 bt = Inr y" "shape y = [B, H, W, C]"
      by (simp add: binop_def)
    have yv: "get y [b, i, j, c] = normalized x b i j c * get g [0, c] + get bt [0, c]"
      if "b < B" "i < H" "j < W" "c < C" for b i j c
      using binop_get [OF y(1), of "[b, i, j, c]"] that
      by (simp add: y(2) x2(2) bt(2) bidx_full bidx_channel x2v)
    from True pre g bt x2 y yv show ?thesis by simp
  qed
  have new: "InstanceNormalization_new (int C) True =
           Inr \<lparr>affine = True, eps = 1 / 10 ^ 12,
                gamma_affine = Some \<lparr>shape = [1, C], elems = replicate C 1\<rparr>,
                beta_affine = Some \<lparr>shape = [1, C], elems = replicate C 0\<rparr>\<rparr>"
    "InstanceNormalization_new (int C) False =
           Inr \<lparr>affine = False, eps = 1 / 10 ^ 12, gamma_affine = None, beta_affine = None\<rparr>"
    by (simp_all add: InstanceNormalization_new_def add_weight_def ones_def zeros_def)
  from call new show ?thesis by blast
qed

subsection \<open>Concrete runs of the attention module, the residual block and the instance normalization\<close>

lemma upt_8: "[0..<8] = [0, 1, 2, 3, 4, 5, 6, 7]"
  by (simp add: upt_rec)


















theorem instance_normalization_formula_witness:
  "InstanceNormalization_new 1 True = Inr example_in \<and>
   (\<exists>y. InstanceNormalization_call example_in example_image = Inr y \<and>
      shape y = [1, 2, 2, 1] \<and>
      get y [0, 1, 1, 0] = normalized example_image 0 1 1 0 * 1 + 0)"
proof -
  have x: "shape example_image = [1, 2, 2, 1]"
    by (simp add: example_image_def)
  have e: "eps example_in = 1 / 10 ^ 12"
    by (simp add: example_in_def)
  have a: "affine example_in \<longrightarrow>
      gamma_affine example_in = Some \<lparr>shape = [1, 1], elems = [1]\<rparr> \<and>
      beta_affine example_in = Some \<lparr>shape = [1, 1], elems = [0]\<rparr> \<and>
      shape \<lparr>shape = [1, 1], elems = [1]\<rparr> = [1, 1] \<and>
      shape \<lparr>shape = [1, 1], elems = [0::real]\<rparr> = [1, 1]"
    by (simp add: example_in_def)
  from instance_normalization_formula [OF x e a] obtain y where
    y: "InstanceNormalization_call example_in example_image = Inr y" "shape y = [1, 2, 2, 1]"
    and v: "\<forall>b<1. \<forall>i<2. \<forall>j<2. \<forall>c<1. get y [b, i, j, c] =
      (if affine example_in
       then normalized example_image b i j c * get \<lparr>shape = [1, 1], elems = [1]\<rparr> [0, c] +
            get \<lparr>shape = [1, 1], elems = [0]\<rparr> [0, c]
       else normalized example_image b i j c)"
    and n: "InstanceNormalization_new (int 1) True =
           Inr \<lparr>affine = True, eps = 1 / 10 ^ 12,
                gamma_affine = Some \<lparr>shape = [1, 1], elems = replicate 1 1\<rparr>,
                beta_affine = Some \<lparr>shape = [1, 1], elems = replicate 1 0\<rparr>\<rparr>"
    by blast
  from v have "get y [0, 1, 1, 0] = normalized example_image 0 1 1 0 * 1 + 0"
    by (simp add: example_in_def get_def)
  moreover from n have "InstanceNormalization_new 1 True = Inr example_in"
    by (simp add: example_in_def)
  ultimately show ?thesis using y by blast
qed

end
